theory Spec2Isabelle
  imports Complex_Main
begin

section \<open>JavaScript values used by the proxy\<close>

text \<open>
  A JavaScript string is the sequence of its UTF-16 code units and \<open>.length\<close> counts
  them. The model writes a string as a \<^typ>\<open>string\<close>, one \<^typ>\<open>char\<close> for one code
  unit, so it ranges over the strings whose code units are below 256.

  A JavaScript number is a binary64 value. The model keeps the special values and the
  exact rational value of a finite one; arithmetic is exact where JavaScript rounds to
  the nearest binary64, which changes nothing on integers of magnitude below \<open>2^53\<close>
  (every millisecond timestamp, lifetime and page size). Negative zero is not
  distinguished from zero: the proxy only tests it for truthiness.
\<close>

datatype jsnum = NaN | PosInf | NegInf | Fin rat

fun truthy_num :: "jsnum \<Rightarrow> bool" where
  "truthy_num NaN = False"
| "truthy_num (Fin q) = (q \<noteq> 0)"
| "truthy_num PosInf = True"
| "truthy_num NegInf = True"

text \<open>The operator \<open><\<close> on two numbers.\<close>

fun js_less :: "jsnum \<Rightarrow> jsnum \<Rightarrow> bool" where
  "js_less NaN _ = False"
| "js_less _ NaN = False"
| "js_less (Fin a) (Fin b) = (a < b)"
| "js_less NegInf NegInf = False"
| "js_less NegInf _ = True"
| "js_less _ NegInf = False"
| "js_less PosInf _ = False"
| "js_less _ PosInf = True"

fun js_neg :: "jsnum \<Rightarrow> jsnum" where
  "js_neg NaN = NaN"
| "js_neg PosInf = NegInf"
| "js_neg NegInf = PosInf"
| "js_neg (Fin q) = Fin (- q)"

fun js_add :: "jsnum \<Rightarrow> jsnum \<Rightarrow> jsnum" where
  "js_add NaN _ = NaN"
| "js_add _ NaN = NaN"
| "js_add (Fin a) (Fin b) = Fin (a + b)"
| "js_add PosInf NegInf = NaN"
| "js_add NegInf PosInf = NaN"
| "js_add PosInf _ = PosInf"
| "js_add NegInf _ = NegInf"
| "js_add _ PosInf = PosInf"
| "js_add _ NegInf = NegInf"

definition js_sub :: "jsnum \<Rightarrow> jsnum \<Rightarrow> jsnum" where
  "js_sub a b = js_add a (js_neg b)"

fun js_sign :: "jsnum \<Rightarrow> int" where
  "js_sign NaN = 0"
| "js_sign PosInf = 1"
| "js_sign NegInf = - 1"
| "js_sign (Fin q) = (if q < 0 then - 1 else if q = 0 then 0 else 1)"

fun js_mul :: "jsnum \<Rightarrow> jsnum \<Rightarrow> jsnum" where
  "js_mul NaN _ = NaN"
| "js_mul _ NaN = NaN"
| "js_mul (Fin a) (Fin b) = Fin (a * b)"
| "js_mul a b =
     (if js_sign a * js_sign b = 0 then NaN
      else if js_sign a * js_sign b < 0 then NegInf else PosInf)"

text \<open>\<open>Math.min\<close> of two numbers: \<open>NaN\<close> if either is.\<close>

fun Math_min :: "jsnum \<Rightarrow> jsnum \<Rightarrow> jsnum" where
  "Math_min NaN _ = NaN"
| "Math_min _ NaN = NaN"
| "Math_min a b = (if js_less a b then a else b)"

text \<open>\<open>a || d\<close> on numbers: \<open>d\<close> replaces a falsy \<open>a\<close> (zero or \<open>NaN\<close>).\<close>

definition or_num :: "jsnum \<Rightarrow> jsnum \<Rightarrow> jsnum" where
  "or_num a d = (if truthy_num a then a else d)"

subsection \<open>Strings to numbers: the grammar of \<open>Number(string)\<close>\<close>

definition StrWhiteSpaceChar :: "char \<Rightarrow> bool" where
  "StrWhiteSpaceChar c = ((of_char c :: nat) \<in> {9, 10, 11, 12, 13, 32, 160})"

definition trim_ws :: "string \<Rightarrow> string" where
  "trim_ws s = rev (dropWhile StrWhiteSpaceChar (rev (dropWhile StrWhiteSpaceChar s)))"

text \<open>The value of a digit in a base, \<open>None\<close> for a character that is not one.\<close>

definition digit_in :: "nat \<Rightarrow> char \<Rightarrow> nat option" where
  "digit_in base c =
     (let n = (of_char c :: nat);
          v = (if 48 \<le> n \<and> n \<le> 57 then Some (n - 48)
               else if 97 \<le> n \<and> n \<le> 102 then Some (n - 87)
               else if 65 \<le> n \<and> n \<le> 70 then Some (n - 55)
               else None)
      in case v of None \<Rightarrow> None | Some d \<Rightarrow> if d < base then Some d else None)"

definition is_digit :: "char \<Rightarrow> bool" where
  "is_digit c = (digit_in 10 c \<noteq> None)"

fun digits_value :: "nat \<Rightarrow> nat \<Rightarrow> string \<Rightarrow> nat option" where
  "digits_value base acc [] = Some acc"
| "digits_value base acc (c # cs) =
     (case digit_in base c of
        None \<Rightarrow> None
      | Some d \<Rightarrow> digits_value base (acc * base + d) cs)"

text \<open>A non-empty run of digits in a base, as its value.\<close>

definition digits1 :: "nat \<Rightarrow> string \<Rightarrow> nat option" where
  "digits1 base s = (if s = [] then None else digits_value base 0 s)"

text \<open>\<open>0x\<close>, \<open>0o\<close> and \<open>0b\<close> literals: no sign, at least one digit.\<close>

definition NonDecimalIntegerLiteral :: "string \<Rightarrow> nat option" where
  "NonDecimalIntegerLiteral s =
     (case s of
        z # x # ds \<Rightarrow>
          if z \<noteq> CHR ''0'' then None
          else if x = CHR ''x'' \<or> x = CHR ''X'' then digits1 16 ds
          else if x = CHR ''o'' \<or> x = CHR ''O'' then digits1 8 ds
          else if x = CHR ''b'' \<or> x = CHR ''B'' then digits1 2 ds
          else None
      | _ \<Rightarrow> None)"

text \<open>The exponent part after a mantissa: nothing, or \<open>e\<close>, an optional sign and digits.\<close>

definition ExponentPart :: "string \<Rightarrow> int option" where
  "ExponentPart s =
     (case s of
        [] \<Rightarrow> Some 0
      | e # t \<Rightarrow>
          if e \<noteq> CHR ''e'' \<and> e \<noteq> CHR ''E'' then None
          else (case t of
                  [] \<Rightarrow> None
                | sg # u \<Rightarrow>
                    if sg = CHR ''-'' then map_option (\<lambda>n. - int n) (digits1 10 u)
                    else if sg = CHR ''+'' then map_option int (digits1 10 u)
                    else map_option int (digits1 10 t)))"

definition scale10 :: "nat \<Rightarrow> int \<Rightarrow> rat" where
  "scale10 m e = (if 0 \<le> e then of_nat m * 10 ^ nat e else of_nat m / 10 ^ nat (- e))"

definition StrUnsignedDecimalLiteral :: "string \<Rightarrow> jsnum" where
  "StrUnsignedDecimalLiteral s =
     (if s = ''Infinity'' then PosInf
      else
        let ip = takeWhile is_digit s;
            r1 = dropWhile is_digit s;
            fp = (case r1 of [] \<Rightarrow> [] | c # t \<Rightarrow> if c = CHR ''.'' then takeWhile is_digit t else []);
            r2 = (case r1 of [] \<Rightarrow> [] | c # t \<Rightarrow> if c = CHR ''.'' then dropWhile is_digit t else r1)
        in if ip = [] \<and> fp = [] then NaN
           else (case (digits_value 10 0 (ip @ fp), ExponentPart r2) of
                   (Some m, Some e) \<Rightarrow> Fin (scale10 m (e - int (length fp)))
                 | _ \<Rightarrow> NaN))"

definition StrDecimalLiteral :: "string \<Rightarrow> jsnum" where
  "StrDecimalLiteral s =
     (case s of
        [] \<Rightarrow> NaN
      | c # t \<Rightarrow>
          if c = CHR ''+'' then StrUnsignedDecimalLiteral t
          else if c = CHR ''-'' then js_neg (StrUnsignedDecimalLiteral t)
          else StrUnsignedDecimalLiteral s)"

definition StringToNumber :: "string \<Rightarrow> jsnum" where
  "StringToNumber s =
     (let t = trim_ws s
      in if t = [] then Fin 0
         else (case NonDecimalIntegerLiteral t of
                 Some n \<Rightarrow> Fin (of_nat n)
               | None \<Rightarrow> StrDecimalLiteral t))"

subsection \<open>Numbers to strings: a status code in a template literal\<close>

fun show_nat :: "nat \<Rightarrow> string" where
  "show_nat n =
     (if n < 10 then [char_of (48 + n)]
      else show_nat (n div 10) @ [char_of (48 + n mod 10)])"

declare show_nat.simps [simp del]

subsection \<open>JSON values and query-string values\<close>

text \<open>
  What \<open>response.json()\<close> and \<open>express.json()\<close> produce, with \<open>undefined\<close> for a
  property that is absent. An object is the list of its properties, one entry for a key.
\<close>

datatype jsval =
    Undefined
  | Null
  | JBool bool
  | JNum jsnum
  | JStr string
  | JArr "jsval list"
  | JObj "(string \<times> jsval) list"

fun truthy :: "jsval \<Rightarrow> bool" where
  "truthy Undefined = False"
| "truthy Null = False"
| "truthy (JBool b) = b"
| "truthy (JNum n) = truthy_num n"
| "truthy (JStr s) = (s \<noteq> [])"
| "truthy (JArr _) = True"
| "truthy (JObj _) = True"

text \<open>
  The conversion to a number that \<open>*\<close> applies to its operand. An array converts
  through its string: empty gives \<open>0\<close>, one element gives what that element's
  string parses to, two or more elements give a string with a comma, so \<open>NaN\<close>.
\<close>

fun ToNumber :: "jsval \<Rightarrow> jsnum" where
  "ToNumber Undefined = NaN"
| "ToNumber Null = Fin 0"
| "ToNumber (JBool b) = Fin (if b then 1 else 0)"
| "ToNumber (JNum n) = n"
| "ToNumber (JStr s) = StringToNumber s"
| "ToNumber (JObj _) = NaN"
| "ToNumber (JArr []) = Fin 0"
| "ToNumber (JArr [Undefined]) = Fin 0"
| "ToNumber (JArr [Null]) = Fin 0"
| "ToNumber (JArr [JBool _]) = NaN"
| "ToNumber (JArr [JNum n]) = n"
| "ToNumber (JArr [JStr s]) = StringToNumber s"
| "ToNumber (JArr [JObj _]) = NaN"
| "ToNumber (JArr [JArr ys]) = ToNumber (JArr ys)"
| "ToNumber (JArr (_ # _ # _)) = NaN"

text \<open>
  JavaScript errors: \<open>new Error(message)\<close> thrown by the proxy itself, the runtime's
  \<open>TypeError\<close>, and whatever \<open>fetch\<close>, \<open>response.text()\<close> or
  \<open>response.json()\<close> rejected with (a network failure, a body that is not JSON).
\<close>

datatype js_error = Error string | TypeError | Failure string

text \<open>
  Reading a named property, as in \<open>data.access_token\<close> or in destructuring
  \<open>req.body\<close>: a \<open>TypeError\<close> on \<open>null\<close> and \<open>undefined\<close>, the property of an
  object, and \<open>undefined\<close> on any other value (the names the proxy reads are not
  properties of strings, numbers or arrays).
\<close>

fun get_prop :: "jsval \<Rightarrow> string \<Rightarrow> js_error + jsval" where
  "get_prop Undefined k = Inl TypeError"
| "get_prop Null k = Inl TypeError"
| "get_prop (JObj kvs) k = Inr (case map_of kvs k of None \<Rightarrow> Undefined | Some v \<Rightarrow> v)"
| "get_prop _ k = Inr Undefined"

text \<open>
  A value of \<open>req.query\<close>, as the query-string parser builds it: a string, an array
  (a repeated key) or a nested object (\<open>a[b]=c\<close>).
\<close>

datatype qval = QStr string | QArr "qval list" | QObj "(string \<times> qval) list"

fun join_comma :: "string list \<Rightarrow> string" where
  "join_comma [] = []"
| "join_comma [s] = s"
| "join_comma (s # t # ss) = s @ '','' @ join_comma (t # ss)"

text \<open>\<open>value.toString()\<close> on a query value.\<close>

fun toString :: "qval \<Rightarrow> string" where
  "toString (QStr s) = s"
| "toString (QArr xs) = join_comma (map toString xs)"
| "toString (QObj _) = ''[object Object]''"

text \<open>\<open>!value\<close> is true of \<open>undefined\<close> and of the empty string only.\<close>

fun absent :: "qval option \<Rightarrow> bool" where
  "absent None = True"
| "absent (Some (QStr s)) = (s = [])"
| "absent (Some _) = False"

text \<open>
  A value handed upstream as a query parameter: a value of \<open>req.query\<close> or a number
  (a numeric default, the capped page size). The URL carries \<open>String(value)\<close>; the
  model records the value that \<open>String\<close> is applied to.
\<close>

datatype pval = Q qval | N jsnum

fun Number_js :: "pval \<Rightarrow> jsnum" where
  "Number_js (N n) = n"
| "Number_js (Q v) = StringToNumber (toString v)"

section \<open>The network and the process state\<close>

record config =
  CLIENT_ID :: string
  CLIENT_SECRET :: string
  OAUTH_URL :: string
  SCOPE :: string

text \<open>
  The calls the proxy makes with \<open>fetch\<close>. The token request is recorded by its URL,
  the client id and secret of its Basic header and its form body; a REST call by its URL
  without the query string, the token of its Bearer header, and the search parameters
  (GET) or the fields of the JSON body (POST).
\<close>

datatype outbound =
    OAuthPost string string string "(string \<times> string) list"
  | RestGet string jsval "(string \<times> pval) list"
  | RestPost string jsval "(string \<times> jsval) list"

text \<open>
  A response: its status, and what \<open>response.text()\<close> and \<open>response.json()\<close>
  resolve to or reject with.
\<close>

record response =
  status :: nat
  body_text :: "js_error + string"
  body_json :: "js_error + jsval"

definition ok :: "response \<Rightarrow> bool" where
  "ok r = (200 \<le> status r \<and> status r \<le> 299)"

datatype fetch_outcome = Rejected js_error | Resolved response

text \<open>The world a request runs in: the environment variables, the network, the clock.\<close>

record world =
  env :: config
  fetch :: "outbound \<Rightarrow> fetch_outcome"
  Date_now :: int

record token_cache =
  cachedToken :: jsval
  tokenExpiresAt :: jsnum


datatype effect = Fetch outbound | ConsoleError string js_error

text \<open>
  How an asynchronous function ends: the value it resolves to or the error it rejects
  with, the token cache it leaves, and what it did on the way, in order.
\<close>

record 'a completion =
  outcome :: "js_error + 'a"
  cache :: token_cache
  effects :: "effect list"

section \<open>The token manager\<close>

definition token_request :: "config \<Rightarrow> outbound" where
  "token_request c =
     OAuthPost (OAUTH_URL c) (CLIENT_ID c) (CLIENT_SECRET c)
       [(''grant_type'', ''client_credentials''), (''scope'', SCOPE c)]"

definition new_expiry :: "int \<Rightarrow> jsval \<Rightarrow> jsnum" where
  "new_expiry now expires_in =
     js_sub (js_add (Fin (of_int now)) (js_mul (ToNumber expires_in) (Fin 1000))) (Fin 10000)"

definition getAccessToken :: "world \<Rightarrow> token_cache \<Rightarrow> jsval completion" where
  "getAccessToken w st =
     (let now = Date_now w in
      if truthy (cachedToken st) \<and> js_less (Fin (of_int now)) (tokenExpiresAt st)
      then \<lparr>outcome = Inr (cachedToken st), cache = st, effects = []\<rparr>
      else
        let call = token_request (env w);
            throw = (\<lambda>e. \<lparr>outcome = Inl e, cache = st, effects = [Fetch call]\<rparr>)
        in case fetch w call of
             Rejected e \<Rightarrow> throw e
           | Resolved response \<Rightarrow>
               if \<not> ok response then
                 (case body_text response of
                    Inl e \<Rightarrow> throw e
                  | Inr errText \<Rightarrow>
                      throw (Error (''Failed to fetch token: '' @ show_nat (status response)
                                     @ '' '' @ errText)))
               else
                 (case body_json response of
                    Inl e \<Rightarrow> throw e
                  | Inr data \<Rightarrow>
                      (case get_prop data ''access_token'' of
                         Inl e \<Rightarrow> throw e
                       | Inr access_token \<Rightarrow>
                           (case get_prop data ''expires_in'' of
                              Inl e \<Rightarrow>
                                \<lparr>outcome = Inl e, cache = st\<lparr>cachedToken := access_token\<rparr>,
                                 effects = [Fetch call]\<rparr>
                            | Inr expires_in \<Rightarrow>
                                \<lparr>outcome = Inr access_token,
                                 cache = \<lparr>cachedToken = access_token,
                                          tokenExpiresAt = new_expiry now expires_in\<rparr>,
                                 effects = [Fetch call]\<rparr>))))"

section \<open>The REST helper and the route handlers\<close>

text \<open>
  \<open>Object.entries(query).forEach\<close> sets a search parameter for every entry whose
  value is not \<open>undefined\<close> (\<open>None\<close> here), in the order of the object literal.
\<close>

fun search_params :: "(string \<times> pval option) list \<Rightarrow> (string \<times> pval) list" where
  "search_params [] = []"
| "search_params ((key, None) # rest) = search_params rest"
| "search_params ((key, Some v) # rest) = (key, v) # search_params rest"

definition fatsecretRestRequest ::
  "world \<Rightarrow> string \<Rightarrow> (string \<times> pval option) list \<Rightarrow> token_cache \<Rightarrow> (nat \<times> jsval) completion"
where
  "fatsecretRestRequest w path query st =
     (let t = getAccessToken w st
      in case outcome t of
           Inl e \<Rightarrow> \<lparr>outcome = Inl e, cache = cache t, effects = effects t\<rparr>
         | Inr token \<Rightarrow>
             let call = RestGet (''https://platform.fatsecret.com/rest/'' @ path) token
                          (search_params query);
                 finish = (\<lambda>x. \<lparr>outcome = x, cache = cache t,
                                  effects = effects t @ [Fetch call]\<rparr>)
             in case fetch w call of
                  Rejected e \<Rightarrow> finish (Inl e)
                | Resolved response \<Rightarrow>
                    (case body_json response of
                       Inl e \<Rightarrow> finish (Inl e)
                     | Inr data \<Rightarrow> finish (Inr (status response, data))))"

text \<open>
  A handler ends with \<open>res.status(code).json(body)\<close>, the pair \<open>(code, body)\<close>, or
  with an exception that nothing catches. Every handler has the same two endings:
  \<open>res.status(400).json({ error })\<close> on a failed check, before anything else is done,
  and the \<open>try\<close>/\<open>catch\<close> around the upstream call, which relays the upstream status
  and body, or logs the error with \<open>console.error\<close> and answers 500 with the
  handler's own message.
\<close>

type_synonym reply = "nat \<times> jsval"

definition error_body :: "string \<Rightarrow> jsval" where
  "error_body message = JObj [(''error'', JStr message)]"

definition bad_request :: "string \<Rightarrow> token_cache \<Rightarrow> reply completion" where
  "bad_request message st =
     \<lparr>outcome = Inr (400, error_body message), cache = st, effects = []\<rparr>"

definition try_catch :: "string \<Rightarrow> string \<Rightarrow> reply completion \<Rightarrow> reply completion" where
  "try_catch label message r =
     (case outcome r of
        Inr (code, data) \<Rightarrow> \<lparr>outcome = Inr (code, data), cache = cache r, effects = effects r\<rparr>
      | Inl err \<Rightarrow>
          \<lparr>outcome = Inr (500, error_body message), cache = cache r,
           effects = effects r @ [ConsoleError label err]\<rparr>)"

text \<open>
  \<open>req.query\<close>, by key. Destructuring reads a key as it is (\<open>given\<close>), or with a
  default that replaces \<open>undefined\<close> only (\<open>dflt\<close>).
\<close>

type_synonym query = "string \<Rightarrow> qval option"

definition given :: "qval option \<Rightarrow> pval option" where
  "given v = map_option Q v"

definition dflt :: "qval option \<Rightarrow> pval \<Rightarrow> pval" where
  "dflt v d = (case v of None \<Rightarrow> d | Some x \<Rightarrow> Q x)"

definition json_default :: pval where
  "json_default = Q (QStr ''json'')"

definition search_foods :: "world \<Rightarrow> query \<Rightarrow> token_cache \<Rightarrow> reply completion" where
  "search_foods w query st =
     (let q = query ''q'';
          page = dflt (query ''page'') (N (Fin 0));
          max_results = dflt (query ''max_results'') (N (Fin 20));
          format = dflt (query ''format'') json_default
      in if absent q then bad_request ''Missing search query (?q=)'' st
         else
           let cappedMaxResults = Math_min (or_num (Number_js max_results) (Fin 20)) (Fin 50)
           in try_catch ''FatSecret /search-foods REST error:''
                ''Internal error while searching foods''
                (fatsecretRestRequest w ''foods/search/v3''
                   [(''search_expression'', given q),
                    (''page_number'', Some page),
                    (''max_results'', Some (N cappedMaxResults)),
                    (''include_sub_categories'', given (query ''include_sub_categories'')),
                    (''include_food_images'', given (query ''include_food_images'')),
                    (''include_food_attributes'', given (query ''include_food_attributes'')),
                    (''flag_default_serving'', given (query ''flag_default_serving'')),
                    (''region'', given (query ''region'')),
                    (''language'', given (query ''language'')),
                    (''format'', Some format)]
                   st))"

definition autocomplete_foods :: "world \<Rightarrow> query \<Rightarrow> token_cache \<Rightarrow> reply completion" where
  "autocomplete_foods w query st =
     (let q = query ''q'';
          max_results = dflt (query ''max_results'') (N (Fin 4));
          format = dflt (query ''format'') json_default
      in if absent q then bad_request ''Missing query (?q=)'' st
         else
           let cappedMaxResults = Math_min (or_num (Number_js max_results) (Fin 4)) (Fin 10)
           in try_catch ''FatSecret /autocomplete-foods REST error:''
                ''Internal error while autocompleting foods''
                (fatsecretRestRequest w ''food/autocomplete/v2''
                   [(''expression'', given q),
                    (''max_results'', Some (N cappedMaxResults)),
                    (''region'', given (query ''region'')),
                    (''format'', Some format)]
                   st))"

text \<open>\<open>!barcode || barcode.toString().length !== 13\<close>\<close>

definition invalid_barcode :: "qval option \<Rightarrow> bool" where
  "invalid_barcode barcode =
     (absent barcode \<or> (case barcode of None \<Rightarrow> True | Some b \<Rightarrow> length (toString b) \<noteq> 13))"

definition find_food_by_barcode :: "world \<Rightarrow> query \<Rightarrow> token_cache \<Rightarrow> reply completion" where
  "find_food_by_barcode w query st =
     (let barcode = query ''barcode'';
          format = dflt (query ''format'') json_default
      in if invalid_barcode barcode
         then bad_request ''Missing or invalid 13-digit barcode (?barcode=)'' st
         else try_catch ''FatSecret /find-food-by-barcode REST error:''
                ''Internal error while finding food by barcode''
                (fatsecretRestRequest w ''food/barcode/find-by-id/v1''
                   [(''barcode'', given barcode),
                    (''region'', given (query ''region'')),
                    (''language'', given (query ''language'')),
                    (''format'', Some format)]
                   st))"

definition food_details :: "world \<Rightarrow> query \<Rightarrow> token_cache \<Rightarrow> reply completion" where
  "food_details w query st =
     (let id = query ''id'';
          format = dflt (query ''format'') json_default
      in if absent id then bad_request ''Missing food id (?id=)'' st
         else try_catch ''FatSecret /food-details REST error:''
                ''Internal error while getting food details''
                (fatsecretRestRequest w ''food/v4''
                   [(''food_id'', given id),
                    (''format'', Some format),
                    (''include_sub_categories'', given (query ''include_sub_categories'')),
                    (''include_food_images'', given (query ''include_food_images'')),
                    (''include_food_attributes'', given (query ''include_food_attributes'')),
                    (''flag_default_serving'', given (query ''flag_default_serving'')),
                    (''region'', given (query ''region'')),
                    (''language'', given (query ''language''))]
                   st))"

definition food_brands :: "world \<Rightarrow> query \<Rightarrow> token_cache \<Rightarrow> reply completion" where
  "food_brands w query st =
     (let starts_with = query ''starts_with'';
          format = dflt (query ''format'') json_default
      in if absent starts_with
         then bad_request ''Missing required parameter (?starts_with=)'' st
         else try_catch ''FatSecret /food-brands REST error:''
                ''Internal error while fetching food brands''
                (fatsecretRestRequest w ''brands/v2''
                   [(''starts_with'', given starts_with),
                    (''brand_type'', given (query ''brand_type'')),
                    (''region'', given (query ''region'')),
                    (''language'', given (query ''language'')),
                    (''format'', Some format)]
                   st))"

definition food_categories :: "world \<Rightarrow> query \<Rightarrow> token_cache \<Rightarrow> reply completion" where
  "food_categories w query st =
     (let format = dflt (query ''format'') json_default
      in try_catch ''FatSecret /food-categories REST error:''
           ''Internal error while fetching food categories''
           (fatsecretRestRequest w ''food-categories/v2''
              [(''region'', given (query ''region'')),
               (''language'', given (query ''language'')),
               (''format'', Some format)]
              st))"

definition food_sub_categories :: "world \<Rightarrow> query \<Rightarrow> token_cache \<Rightarrow> reply completion" where
  "food_sub_categories w query st =
     (let food_category_id = query ''food_category_id'';
          format = dflt (query ''format'') json_default
      in if absent food_category_id
         then bad_request ''Missing required parameter (?food_category_id=)'' st
         else try_catch ''FatSecret /food-sub-categories REST error:''
                ''Internal error while fetching food sub-categories''
                (fatsecretRestRequest w ''food-sub-categories/v2''
                   [(''food_category_id'', given food_category_id),
                    (''region'', given (query ''region'')),
                    (''language'', given (query ''language'')),
                    (''format'', Some format)]
                   st))"

definition recipe_details :: "world \<Rightarrow> query \<Rightarrow> token_cache \<Rightarrow> reply completion" where
  "recipe_details w query st =
     (let id = query ''id'';
          format = dflt (query ''format'') json_default
      in if absent id then bad_request ''Missing recipe id (?id=)'' st
         else try_catch ''FatSecret /recipe-details REST error:''
                ''Internal error while getting recipe details''
                (fatsecretRestRequest w ''recipe/v2''
                   [(''recipe_id'', given id),
                    (''region'', given (query ''region'')),
                    (''format'', Some format)]
                   st))"

definition search_recipes :: "world \<Rightarrow> query \<Rightarrow> token_cache \<Rightarrow> reply completion" where
  "search_recipes w query st =
     (let q = query ''q'';
          page = dflt (query ''page'') (N (Fin 0));
          max_results = dflt (query ''max_results'') (N (Fin 20));
          format = dflt (query ''format'') json_default;
          cappedMaxResults = Math_min (or_num (Number_js max_results) (Fin 20)) (Fin 50)
      in try_catch ''FatSecret /search-recipes REST error:''
           ''Internal error while searching recipes''
           (fatsecretRestRequest w ''recipes/search/v3''
              [(''search_expression'', given q),
               (''recipe_types'', given (query ''recipe_types'')),
               (''recipe_types_matchall'', given (query ''recipe_types_matchall'')),
               (''must_have_images'', given (query ''must_have_images'')),
               (''calories.from'', given (query ''calories.from'')),
               (''calories.to'', given (query ''calories.to'')),
               (''carb_percentage.from'', given (query ''carb_percentage.from'')),
               (''carb_percentage.to'', given (query ''carb_percentage.to'')),
               (''protein_percentage.from'', given (query ''protein_percentage.from'')),
               (''protein_percentage.to'', given (query ''protein_percentage.to'')),
               (''fat_percentage.from'', given (query ''fat_percentage.from'')),
               (''fat_percentage.to'', given (query ''fat_percentage.to'')),
               (''prep_time.from'', given (query ''prep_time.from'')),
               (''prep_time.to'', given (query ''prep_time.to'')),
               (''sort_by'', given (query ''sort_by'')),
               (''page_number'', Some page),
               (''max_results'', Some (N cappedMaxResults)),
               (''region'', given (query ''region'')),
               (''format'', Some format)]
              st))"

definition recipe_types :: "world \<Rightarrow> query \<Rightarrow> token_cache \<Rightarrow> reply completion" where
  "recipe_types w query st =
     (let format = dflt (query ''format'') json_default
      in try_catch ''FatSecret /recipe-types REST error:''
           ''Internal error while fetching recipe types''
           (fatsecretRestRequest w ''recipe-types/v2'' [(''format'', Some format)] st))"

text \<open>
  The two POST handlers read \<open>req.body\<close>, get the token themselves and post a JSON
  body. \<open>JSON.stringify\<close> leaves out a property whose value is \<open>undefined\<close>.
  Destructuring a body that is \<open>undefined\<close> or \<open>null\<close> throws outside the
  \<open>try\<close>, so the handler itself rejects.
\<close>

fun is_string :: "jsval \<Rightarrow> bool" where
  "is_string (JStr _) = True"
| "is_string _ = False"

definition field :: "jsval \<Rightarrow> string \<Rightarrow> jsval" where
  "field obj k = (case get_prop obj k of Inl _ \<Rightarrow> Undefined | Inr v \<Rightarrow> v)"

fun JSON_stringify_fields :: "(string \<times> jsval) list \<Rightarrow> (string \<times> jsval) list" where
  "JSON_stringify_fields [] = []"
| "JSON_stringify_fields ((key, Undefined) # rest) = JSON_stringify_fields rest"
| "JSON_stringify_fields ((key, v) # rest) = (key, v) # JSON_stringify_fields rest"

definition post_json ::
  "world \<Rightarrow> string \<Rightarrow> (string \<times> jsval) list \<Rightarrow> token_cache \<Rightarrow> reply completion"
where
  "post_json w url payload st =
     (let t = getAccessToken w st
      in case outcome t of
           Inl e \<Rightarrow> \<lparr>outcome = Inl e, cache = cache t, effects = effects t\<rparr>
         | Inr token \<Rightarrow>
             let call = RestPost url token (JSON_stringify_fields payload);
                 finish = (\<lambda>x. \<lparr>outcome = x, cache = cache t,
                                  effects = effects t @ [Fetch call]\<rparr>)
             in case fetch w call of
                  Rejected e \<Rightarrow> finish (Inl e)
                | Resolved response \<Rightarrow>
                    (case body_json response of
                       Inl e \<Rightarrow> finish (Inl e)
                     | Inr data \<Rightarrow> finish (Inr (status response, data))))"

definition nlp :: "world \<Rightarrow> jsval \<Rightarrow> token_cache \<Rightarrow> reply completion" where
  "nlp w body st =
     (case get_prop body ''user_input'' of
        Inl e \<Rightarrow> \<lparr>outcome = Inl e, cache = st, effects = []\<rparr>
      | Inr user_input \<Rightarrow>
          if \<not> truthy user_input \<or> \<not> is_string user_input
          then bad_request ''Missing or invalid user_input (required)'' st
          else try_catch ''FatSecret /nlp REST error:''
                 ''Internal error while processing natural language input''
                 (post_json w ''https://platform.fatsecret.com/rest/natural-language-processing/v1''
                    [(''user_input'', user_input),
                     (''include_food_data'', field body ''include_food_data''),
                     (''eaten_foods'', field body ''eaten_foods''),
                     (''region'', field body ''region''),
                     (''language'', field body ''language'')]
                    st))"

definition image_recognition :: "world \<Rightarrow> jsval \<Rightarrow> token_cache \<Rightarrow> reply completion" where
  "image_recognition w body st =
     (case get_prop body ''image_b64'' of
        Inl e \<Rightarrow> \<lparr>outcome = Inl e, cache = st, effects = []\<rparr>
      | Inr image_b64 \<Rightarrow>
          if \<not> truthy image_b64 \<or> \<not> is_string image_b64
          then bad_request ''Missing or invalid image_b64 (Base64 string required)'' st
          else try_catch ''FatSecret /image-recognition REST error:''
                 ''Internal error while processing image''
                 (post_json w ''https://platform.fatsecret.com/rest/image-recognition/v2''
                    [(''image_b64'', image_b64),
                     (''include_food_data'', field body ''include_food_data''),
                     (''eaten_foods'', field body ''eaten_foods''),
                     (''region'', field body ''region''),
                     (''language'', field body ''language'')]
                    st))"

subsection \<open>The routes\<close>

datatype endpoint =
    SearchFoods
  | AutocompleteFoods
  | FindFoodByBarcode
  | FoodDetails
  | FoodBrands
  | FoodCategories
  | FoodSubCategories
  | RecipeDetails
  | SearchRecipes
  | RecipeTypes
  | Nlp
  | ImageRecognition

record request =
  req_query :: query
  req_body :: jsval

fun handle :: "endpoint \<Rightarrow> world \<Rightarrow> request \<Rightarrow> token_cache \<Rightarrow> reply completion" where
  "handle SearchFoods w req st = search_foods w (req_query req) st"
| "handle AutocompleteFoods w req st = autocomplete_foods w (req_query req) st"
| "handle FindFoodByBarcode w req st = find_food_by_barcode w (req_query req) st"
| "handle FoodDetails w req st = food_details w (req_query req) st"
| "handle FoodBrands w req st = food_brands w (req_query req) st"
| "handle FoodCategories w req st = food_categories w (req_query req) st"
| "handle FoodSubCategories w req st = food_sub_categories w (req_query req) st"
| "handle RecipeDetails w req st = recipe_details w (req_query req) st"
| "handle SearchRecipes w req st = search_recipes w (req_query req) st"
| "handle RecipeTypes w req st = recipe_types w (req_query req) st"
| "handle Nlp w req st = nlp w (req_body req) st"
| "handle ImageRecognition w req st = image_recognition w (req_body req) st"

section \<open>Vocabulary for the properties\<close>

text \<open>The calls to the REST API among the effects of a run, in order.\<close>

fun is_rest :: "outbound \<Rightarrow> bool" where
  "is_rest (OAuthPost _ _ _ _) = False"
| "is_rest (RestGet _ _ _) = True"
| "is_rest (RestPost _ _ _) = True"

fun upstream_calls :: "effect list \<Rightarrow> outbound list" where
  "upstream_calls [] = []"
| "upstream_calls (Fetch c # es) = (if is_rest c then c # upstream_calls es else upstream_calls es)"
| "upstream_calls (ConsoleError _ _ # es) = upstream_calls es"

text \<open>
  \<open>fatsecretRestRequest\<close> and the POST handlers make their call the same way: get the
  token, issue one call that carries it, read the response as JSON. \<open>with_token\<close>
  is that common shape, for a call given as a function of the token.
\<close>

definition with_token :: "world \<Rightarrow> token_cache \<Rightarrow> (jsval \<Rightarrow> outbound) \<Rightarrow> reply completion" where
  "with_token w st call_of =
     (case outcome (getAccessToken w st) of
        Inl e \<Rightarrow>
          \<lparr>outcome = Inl e, cache = cache (getAccessToken w st),
           effects = effects (getAccessToken w st)\<rparr>
      | Inr token \<Rightarrow>
          \<lparr>outcome =
             (case fetch w (call_of token) of
                Rejected e \<Rightarrow> Inl e
              | Resolved response \<Rightarrow>
                  (case body_json response of
                     Inl e \<Rightarrow> Inl e
                   | Inr data \<Rightarrow> Inr (status response, data))),
           cache = cache (getAccessToken w st),
           effects = effects (getAccessToken w st) @ [Fetch (call_of token)]\<rparr>)"

text \<open>A handler's \<open>try\<close>/\<open>catch\<close> around such a call.\<close>

definition forward ::
  "string \<Rightarrow> string \<Rightarrow> world \<Rightarrow> token_cache \<Rightarrow> (jsval \<Rightarrow> outbound) \<Rightarrow> reply completion"
where
  "forward label message w st call_of = try_catch label message (with_token w st call_of)"






text \<open>A POST whose body cannot be destructured: the handler throws a \<open>TypeError\<close>.\<close>

fun undestructurable :: "endpoint \<Rightarrow> request \<Rightarrow> bool" where
  "undestructurable Nlp req = (req_body req = Undefined \<or> req_body req = Null)"
| "undestructurable ImageRecognition req = (req_body req = Undefined \<or> req_body req = Null)"
| "undestructurable _ req = False"

fun log_label :: "endpoint \<Rightarrow> string" where
  "log_label SearchFoods = ''FatSecret /search-foods REST error:''"
| "log_label AutocompleteFoods = ''FatSecret /autocomplete-foods REST error:''"
| "log_label FindFoodByBarcode = ''FatSecret /find-food-by-barcode REST error:''"
| "log_label FoodDetails = ''FatSecret /food-details REST error:''"
| "log_label FoodBrands = ''FatSecret /food-brands REST error:''"
| "log_label FoodCategories = ''FatSecret /food-categories REST error:''"
| "log_label FoodSubCategories = ''FatSecret /food-sub-categories REST error:''"
| "log_label RecipeDetails = ''FatSecret /recipe-details REST error:''"
| "log_label SearchRecipes = ''FatSecret /search-recipes REST error:''"
| "log_label RecipeTypes = ''FatSecret /recipe-types REST error:''"
| "log_label Nlp = ''FatSecret /nlp REST error:''"
| "log_label ImageRecognition = ''FatSecret /image-recognition REST error:''"

fun internal_error :: "endpoint \<Rightarrow> string" where
  "internal_error SearchFoods = ''Internal error while searching foods''"
| "internal_error AutocompleteFoods = ''Internal error while autocompleting foods''"
| "internal_error FindFoodByBarcode = ''Internal error while finding food by barcode''"
| "internal_error FoodDetails = ''Internal error while getting food details''"
| "internal_error FoodBrands = ''Internal error while fetching food brands''"
| "internal_error FoodCategories = ''Internal error while fetching food categories''"
| "internal_error FoodSubCategories = ''Internal error while fetching food sub-categories''"
| "internal_error RecipeDetails = ''Internal error while getting recipe details''"
| "internal_error SearchRecipes = ''Internal error while searching recipes''"
| "internal_error RecipeTypes = ''Internal error while fetching recipe types''"
| "internal_error Nlp = ''Internal error while processing natural language input''"
| "internal_error ImageRecognition = ''Internal error while processing image''"

subsection \<open>Example worlds\<close>

definition example_config :: config where
  "example_config =
     \<lparr>CLIENT_ID = ''client'', CLIENT_SECRET = ''secret'',
      OAUTH_URL = ''https://oauth.fatsecret.com/connect/token'', SCOPE = ''basic''\<rparr>"

text \<open>A network that answers every token request one way and every REST call another.\<close>

fun network :: "fetch_outcome \<Rightarrow> fetch_outcome \<Rightarrow> outbound \<Rightarrow> fetch_outcome" where
  "network oauth rest (OAuthPost _ _ _ _) = oauth"
| "network oauth rest _ = rest"

definition world_at :: "int \<Rightarrow> fetch_outcome \<Rightarrow> fetch_outcome \<Rightarrow> world" where
  "world_at now oauth rest = \<lparr>env = example_config, fetch = network oauth rest, Date_now = now\<rparr>"

definition token_granted :: fetch_outcome where
  "token_granted =
     Resolved \<lparr>status = 200, body_text = Inr ''{access_token: tok-1, expires_in: 86400}'',
               body_json = Inr (JObj [(''access_token'', JStr ''tok-1''),
                                      (''expires_in'', JNum (Fin 86400))])\<rparr>"



definition unreachable :: fetch_outcome where
  "unreachable = Rejected (Failure ''connect ECONNREFUSED'')"



definition bad_gateway :: fetch_outcome where
  "bad_gateway =
     Resolved \<lparr>status = 502, body_text = Inr ''<html>Bad Gateway</html>'',
               body_json = Inl (Failure ''invalid json response body'')\<rparr>"


definition warm_cache :: token_cache where
  "warm_cache = \<lparr>cachedToken = JStr ''tok-0'', tokenExpiresAt = Fin 9000\<rparr>"

definition get_request :: "(string \<times> qval) list \<Rightarrow> request" where
  "get_request kvs = \<lparr>req_query = map_of kvs, req_body = Undefined\<rparr>"

definition post_request :: "jsval \<Rightarrow> request" where
  "post_request b = \<lparr>req_query = map_of [], req_body = b\<rparr>"

section \<open>The token manager: what a call does\<close>

text \<open>The four ways a call of \<open>getAccessToken\<close> can go.\<close>

lemma getAccessToken_hit:
  assumes "truthy (cachedToken st)"
    and "js_less (Fin (of_int (Date_now w))) (tokenExpiresAt st)"
  shows "getAccessToken w st = \<lparr>outcome = Inr (cachedToken st), cache = st, effects = []\<rparr>"
  using assms by (simp add: getAccessToken_def)

lemma getAccessToken_effects:
  assumes "\<not> truthy (cachedToken st) \<or> \<not> js_less (Fin (of_int (Date_now w))) (tokenExpiresAt st)"
  shows "effects (getAccessToken w st) = [Fetch (token_request (env w))]"
  using assms
  by (auto simp add: getAccessToken_def Let_def split: fetch_outcome.split sum.split)









text \<open>
  Claim C1. When a cached token exists (the cached value is truthy, which is the test
  the code makes) and the current time is strictly before the stored expiry,
  \<open>getAccessToken\<close> returns the cached token, makes no network call at all, and
  leaves \<open>cachedToken\<close> and \<open>tokenExpiresAt\<close> as they were.
\<close>

theorem getAccessToken_reuses_fresh_token:
  assumes "truthy (cachedToken st)"
    and "js_less (Fin (of_int (Date_now w))) (tokenExpiresAt st)"
  shows "getAccessToken w st = \<lparr>outcome = Inr (cachedToken st), cache = st, effects = []\<rparr>"
  using assms by (rule getAccessToken_hit)

theorem getAccessToken_reuses_fresh_token_witness:
  "truthy (cachedToken warm_cache)
   \<and> js_less (Fin (of_int (Date_now (world_at 5000 unreachable unreachable))))
        (tokenExpiresAt warm_cache)
   \<and> getAccessToken (world_at 5000 unreachable unreachable) warm_cache
       = \<lparr>outcome = Inr (JStr ''tok-0''), cache = warm_cache, effects = []\<rparr>"
proof -
  have a: "truthy (cachedToken warm_cache)"
    by (simp add: warm_cache_def)
  have b: "js_less (Fin (of_int (Date_now (world_at 5000 unreachable unreachable))))
             (tokenExpiresAt warm_cache)"
    by (simp add: warm_cache_def world_at_def)
  from getAccessToken_reuses_fresh_token [OF a b] a b show ?thesis
    by (simp add: warm_cache_def)
qed





section \<open>The route handlers: what a request does\<close>

lemma fatsecretRestRequest_with_token:
  "fatsecretRestRequest w path q st =
     with_token w st (\<lambda>token. RestGet (''https://platform.fatsecret.com/rest/'' @ path) token (search_params q))"
  by (simp add: fatsecretRestRequest_def with_token_def Let_def split: sum.split fetch_outcome.split)

lemma post_json_with_token:
  "post_json w url payload st =
     with_token w st (\<lambda>token. RestPost url token (JSON_stringify_fields payload))"
  by (simp add: post_json_def with_token_def Let_def split: sum.split fetch_outcome.split)

lemma upstream_calls_append:
  "upstream_calls (xs @ ys) = upstream_calls xs @ upstream_calls ys"
  by (induction xs rule: upstream_calls.induct) simp_all

lemma upstream_calls_token:
  "upstream_calls (effects (getAccessToken w st)) = []"
proof (cases "truthy (cachedToken st) \<and> js_less (Fin (of_int (Date_now w))) (tokenExpiresAt st)")
  case True
  then show ?thesis by (simp add: getAccessToken_hit)
next
  case False
  then have "effects (getAccessToken w st) = [Fetch (token_request (env w))]"
    by (intro getAccessToken_effects) simp
  then show ?thesis by (simp add: token_request_def)
qed

lemma forward_calls:
  assumes "\<And>token. is_rest (call_of token)"
  shows "upstream_calls (effects (forward l m w st call_of)) =
           (case outcome (getAccessToken w st) of Inl e \<Rightarrow> [] | Inr token \<Rightarrow> [call_of token])"
  using assms
  by (simp add: forward_def try_catch_def with_token_def upstream_calls_append upstream_calls_token
        split: sum.split fetch_outcome.split)

lemma forward_outcome:
  "outcome (forward l m w st call_of) =
     (case outcome (getAccessToken w st) of
        Inl e \<Rightarrow> Inr (500, error_body m)
      | Inr token \<Rightarrow>
          (case fetch w (call_of token) of
             Rejected e \<Rightarrow> Inr (500, error_body m)
           | Resolved r \<Rightarrow>
               (case body_json r of
                  Inl e \<Rightarrow> Inr (500, error_body m)
                | Inr data \<Rightarrow> Inr (status r, data))))"
  by (simp add: forward_def try_catch_def with_token_def split: sum.split fetch_outcome.split)

lemma forward_effects:
  "effects (forward l m w st call_of) =
     effects (getAccessToken w st) @
     (case outcome (getAccessToken w st) of
        Inl e \<Rightarrow> [ConsoleError l e]
      | Inr token \<Rightarrow>
          Fetch (call_of token) #
          (case fetch w (call_of token) of
             Rejected e \<Rightarrow> [ConsoleError l e]
           | Resolved r \<Rightarrow>
               (case body_json r of
                  Inl e \<Rightarrow> [ConsoleError l e]
                | Inr data \<Rightarrow> [])))"
  by (simp add: forward_def try_catch_def with_token_def split: sum.split fetch_outcome.split)

lemma forward_cache:
  "cache (forward l m w st call_of) = cache (getAccessToken w st)"
  by (simp add: forward_def try_catch_def with_token_def split: sum.split fetch_outcome.split)


lemmas handler_defs =
  search_foods_def autocomplete_foods_def find_food_by_barcode_def food_details_def
  food_brands_def food_categories_def food_sub_categories_def recipe_details_def
  search_recipes_def recipe_types_def nlp_def image_recognition_def

lemmas to_forward =
  fatsecretRestRequest_with_token post_json_with_token forward_def [symmetric]













lemma forward_fails:
  assumes "\<And>token. is_rest (call_of token)"
    and "upstream_calls (effects (forward l m w st call_of)) = [call]"
    and "fetch w call = Rejected e \<or> (\<exists>r. fetch w call = Resolved r \<and> body_json r = Inl e)"
  shows "outcome (forward l m w st call_of) = Inr (500, error_body m)
         \<and> effects (forward l m w st call_of)
             = effects (getAccessToken w st) @ [Fetch call, ConsoleError l e]"
proof (cases "outcome (getAccessToken w st)")
  case (Inl x)
  with assms(1,2) show ?thesis by (simp add: forward_calls)
next
  case (Inr token)
  with assms(1,2) have "call = call_of token" by (simp add: forward_calls)
  with Inr assms(3) show ?thesis
    by (auto simp add: forward_outcome forward_effects)
qed

lemma handle_fails:
  assumes "upstream_calls (effects (handle ep w req st)) = [call]"
    and "fetch w call = Rejected e \<or> (\<exists>r. fetch w call = Resolved r \<and> body_json r = Inl e)"
  shows "outcome (handle ep w req st) = Inr (500, error_body (internal_error ep))
         \<and> effects (handle ep w req st)
             = effects (getAccessToken w st) @ [Fetch call, ConsoleError (log_label ep) e]"
  using assms
  by (cases ep)
     (auto simp add: handler_defs Let_def to_forward bad_request_def
        split: if_splits sum.splits
        intro!: forward_fails [THEN conjunct1] forward_fails [THEN conjunct2])

lemma handle_undestructurable:
  assumes "undestructurable ep req"
  shows "handle ep w req st = \<lparr>outcome = Inl TypeError, cache = st, effects = []\<rparr>"
  using assms
  by (cases ep) (auto simp add: handler_defs)





section \<open>The claims about the token manager's contract\<close>




section \<open>The claims about the route handlers\<close>







text \<open>
  Claim C7. Whenever a handler has made its upstream call and that call threw (the
  fetch was rejected, or the body of the response was not JSON), the handler answers
  500 with its own fixed error body, which depends on the route only and not on the
  error, and the error itself goes to \<open>console.error\<close> under the route's label, after
  the call, and nowhere else.
\<close>

theorem upstream_exception_answers_generic_500:
  assumes "upstream_calls (effects (handle ep w req st)) = [call]"
    and "fetch w call = Rejected e \<or> (\<exists>r. fetch w call = Resolved r \<and> body_json r = Inl e)"
  shows "outcome (handle ep w req st) = Inr (500, error_body (internal_error ep))
         \<and> effects (handle ep w req st)
             = effects (getAccessToken w st) @ [Fetch call, ConsoleError (log_label ep) e]"
  using assms by (rule handle_fails)

theorem upstream_exception_answers_generic_500_witness:
  "upstream_calls (effects (handle FoodDetails (world_at 5000 token_granted unreachable)
       (get_request [(''id'', QStr ''41'')]) warm_cache))
     = [RestGet ''https://platform.fatsecret.com/rest/food/v4'' (JStr ''tok-0'')
          [(''food_id'', Q (QStr ''41'')), (''format'', Q (QStr ''json''))]]
   \<and> fetch (world_at 5000 token_granted unreachable)
         (RestGet ''https://platform.fatsecret.com/rest/food/v4'' (JStr ''tok-0'')
            [(''food_id'', Q (QStr ''41'')), (''format'', Q (QStr ''json''))])
       = Rejected (Failure ''connect ECONNREFUSED'')
   \<and> outcome (handle FoodDetails (world_at 5000 token_granted unreachable)
         (get_request [(''id'', QStr ''41'')]) warm_cache)
       = Inr (500, JObj [(''error'', JStr ''Internal error while getting food details'')])
   \<and> effects (handle FoodDetails (world_at 5000 token_granted unreachable)
         (get_request [(''id'', QStr ''41'')]) warm_cache)
       = [Fetch (RestGet ''https://platform.fatsecret.com/rest/food/v4'' (JStr ''tok-0'')
            [(''food_id'', Q (QStr ''41'')), (''format'', Q (QStr ''json''))]),
          ConsoleError ''FatSecret /food-details REST error:'' (Failure ''connect ECONNREFUSED'')]
   \<and> upstream_calls (effects (handle Nlp (world_at 5000 token_granted bad_gateway)
       (post_request (JObj [(''user_input'', JStr ''an apple'')])) warm_cache))
     = [RestPost ''https://platform.fatsecret.com/rest/natural-language-processing/v1''
          (JStr ''tok-0'') [(''user_input'', JStr ''an apple'')]]
   \<and> outcome (handle Nlp (world_at 5000 token_granted bad_gateway)
       (post_request (JObj [(''user_input'', JStr ''an apple'')])) warm_cache)
       = Inr (500, JObj [(''error'', JStr ''Internal error while processing natural language input'')])"
proof -
  let ?w = "world_at 5000 token_granted unreachable"
  let ?call = "RestGet ''https://platform.fatsecret.com/rest/food/v4'' (JStr ''tok-0'')
          [(''food_id'', Q (QStr ''41'')), (''format'', Q (QStr ''json''))]"
  let ?w' = "world_at 5000 token_granted bad_gateway"
  let ?call' = "RestPost ''https://platform.fatsecret.com/rest/natural-language-processing/v1''
          (JStr ''tok-0'') [(''user_input'', JStr ''an apple'')]"
  have calls: "upstream_calls (effects (handle FoodDetails ?w
       (get_request [(''id'', QStr ''41'')]) warm_cache)) = [?call]"
    by code_simp
  have resp: "fetch ?w ?call = Rejected (Failure ''connect ECONNREFUSED'')"
    by (simp add: world_at_def unreachable_def)
  then have fails: "fetch ?w ?call = Rejected (Failure ''connect ECONNREFUSED'')
      \<or> (\<exists>r. fetch ?w ?call = Resolved r \<and> body_json r = Inl (Failure ''connect ECONNREFUSED''))"
    by (rule disjI1)
  have tok: "effects (getAccessToken ?w warm_cache) = []"
    by (simp add: getAccessToken_hit warm_cache_def world_at_def)
  have calls': "upstream_calls (effects (handle Nlp ?w'
       (post_request (JObj [(''user_input'', JStr ''an apple'')])) warm_cache)) = [?call']"
    by code_simp
  have "fetch ?w' ?call' = bad_gateway"
    by (simp add: world_at_def)
  then have fails': "fetch ?w' ?call' = Rejected (Failure ''invalid json response body'')
      \<or> (\<exists>r. fetch ?w' ?call' = Resolved r \<and> body_json r = Inl (Failure ''invalid json response body''))"
    by (simp add: bad_gateway_def)
  from upstream_exception_answers_generic_500 [OF calls fails]
    upstream_exception_answers_generic_500 [OF calls' fails'] calls calls' resp tok
  show ?thesis by (simp add: error_body_def)
qed






end
